theory Spec2Isabelle
  imports Main "HOL-Library.Word"
begin

section \<open>Strings, file names and paths\<close>

text \<open>
  The service is \<^verbatim>\<open>main.py\<close> of the CAD engine: two FastAPI endpoints that persist an
  upload to a temporary file, validate it, hand it to the conversion kernel and clean up.
  File names and paths are Python strings; they are modelled as byte strings, and
  \<^verbatim>\<open>str.lower\<close> acts on the ASCII letters (the only ones that matter for the
  extensions the handlers compare and derive).
\<close>

type_synonym path = string
type_synonym byte = "8 word"

definition lower_char :: "char \<Rightarrow> char" where
  "lower_char c =
     (let n = (of_char c :: nat) in if 65 \<le> n \<and> n \<le> 90 then char_of (n + 32) else c)"

definition lower :: "string \<Rightarrow> string" where
  "lower s = map lower_char s"

text \<open>\<^verbatim>\<open>s.rfind(c)\<close>: the index of the last occurrence, \<open>None\<close> for Python's -1.\<close>

fun rfind :: "char \<Rightarrow> string \<Rightarrow> nat option" where
  "rfind c [] = None"
| "rfind c (x # xs) =
     (case rfind c xs of
        Some i \<Rightarrow> Some (Suc i)
      | None \<Rightarrow> if x = c then Some 0 else None)"

text \<open>\<^verbatim>\<open>s.split('/')\<close>.\<close>

fun split_sep :: "string \<Rightarrow> string list" where
  "split_sep [] = [[]]"
| "split_sep (c # cs) =
     (if c = CHR ''/'' then [] # split_sep cs
      else (case split_sep cs of w # ws \<Rightarrow> (c # w) # ws | [] \<Rightarrow> [[c]]))"

text \<open>
  \<^verbatim>\<open>Path(p).name\<close> on a POSIX path: pathlib keeps the components that are neither
  empty nor \<^verbatim>\<open>.\<close>; the name is the last of them, or the empty string.
\<close>

definition path_parts :: "string \<Rightarrow> string list" where
  "path_parts p = filter (\<lambda>x. x \<noteq> [] \<and> x \<noteq> ''.'') (split_sep p)"

definition path_name :: "string \<Rightarrow> string" where
  "path_name p = (case path_parts p of [] \<Rightarrow> [] | x # xs \<Rightarrow> last (x # xs))"

text \<open>
  \<^verbatim>\<open>Path(p).suffix\<close> and \<^verbatim>\<open>Path(p).stem\<close>: pathlib takes
  \<^verbatim>\<open>i = name.rfind('.')\<close> and splits the name there when
  \<^verbatim>\<open>0 < i < len(name) - 1\<close>.
\<close>

definition name_suffix :: "string \<Rightarrow> string" where
  "name_suffix name =
     (case rfind CHR ''.'' name of
        Some i \<Rightarrow> if 0 < i \<and> i < length name - 1 then drop i name else []
      | None \<Rightarrow> [])"

definition path_suffix :: "string \<Rightarrow> string" where
  "path_suffix p = name_suffix (path_name p)"

definition path_stem :: "string \<Rightarrow> string" where
  "path_stem p =
     (let name = path_name p in
      case rfind CHR ''.'' name of
        Some i \<Rightarrow> if 0 < i \<and> i < length name - 1 then take i name else name
      | None \<Rightarrow> name)"

text \<open>
  \<^verbatim>\<open>str(Path(p).with_suffix(s))\<close>: the old suffix of the name is cut off and the new
  one appended. The handlers apply it to the name \<^verbatim>\<open>tempfile\<close> returned, which lies in
  the temp directory and starts with \<^verbatim>\<open>tmp\<close>, so pathlib's error cases (an empty name,
  a malformed suffix) do not arise; the directory part is kept as it is.
\<close>

definition with_suffix :: "path \<Rightarrow> string \<Rightarrow> path" where
  "with_suffix p s = take (length p - length (path_suffix p)) p @ s"

text \<open>
  \<^verbatim>\<open>tempfile.NamedTemporaryFile(suffix=..., dir=...)\<close> creates
  \<^verbatim>\<open>os.path.join(dir, 'tmp' + random + suffix)\<close>, where the random part is drawn
  from \<^verbatim>\<open>a-z0-9_\<close>.
\<close>

definition join_path :: "string \<Rightarrow> string \<Rightarrow> path" where
  "join_path dir name =
     (if dir = [] \<or> last dir = CHR ''/'' then dir @ name else dir @ ''/'' @ name)"

definition temp_path :: "string \<Rightarrow> string \<Rightarrow> string \<Rightarrow> path" where
  "temp_path dir rnd suffix = join_path dir (''tmp'' @ rnd @ suffix)"

text \<open>\<^verbatim>\<open>str(n)\<close> for a non-negative integer.\<close>

definition digit_char :: "nat \<Rightarrow> char" where
  "digit_char d = char_of (48 + d)"

function str_nat :: "nat \<Rightarrow> string" where
  "str_nat n = (if n < 10 then [digit_char n] else str_nat (n div 10) @ [digit_char (n mod 10)])"
  by pat_completeness auto
termination
  by (relation "measure id") auto

section \<open>Exceptions, responses and the request state\<close>

text \<open>
  The exceptions a collaborator (tempfile, the upload, the validator, the kernel) can raise
  inside a handler, by the \<^verbatim>\<open>except\<close> clause that catches them:
  \<^verbatim>\<open>FileValidationError\<close> and \<^verbatim>\<open>ConversionError\<close> (their subclasses included, each
  with its \<^verbatim>\<open>str(e)\<close>), any other member of the \<^verbatim>\<open>CADEngineException\<close> family, and
  any other \<^verbatim>\<open>Exception\<close> (an \<^verbatim>\<open>OSError\<close>, say); the last two carry the class name
  and the message. What leaves a handler is an \<^verbatim>\<open>HTTPException\<close> the handler raised
  itself, or a collaborator's exception that nothing caught.
\<close>

datatype exc =
    FileValidationError string
  | ConversionError string
  | CADEngineException string string
  | OtherException string string

datatype raised = HTTPException nat string | Uncaught exc

fun exc_str :: "exc \<Rightarrow> string" where
  "exc_str (FileValidationError m) = m"
| "exc_str (ConversionError m) = m"
| "exc_str (CADEngineException c m) = m"
| "exc_str (OtherException c m) = m"

fun exc_class_name :: "exc \<Rightarrow> string" where
  "exc_class_name (FileValidationError m) = ''FileValidationError''"
| "exc_class_name (ConversionError m) = ''ConversionError''"
| "exc_class_name (CADEngineException c m) = c"
| "exc_class_name (OtherException c m) = c"

fun is_cad_engine_exception :: "exc \<Rightarrow> bool" where
  "is_cad_engine_exception (OtherException c m) = False"
| "is_cad_engine_exception e = True"

text \<open>
  JSON bodies. The two mesh tolerances are floats of the configuration; they are carried
  as their printed form.
\<close>

datatype json =
    JStr string
  | JNat nat
  | JBool bool
  | JFloat string
  | JObj "(string \<times> json) list"

text \<open>What a handler returns: a \<^verbatim>\<open>FileResponse\<close> (path, media type, download file
  name, headers) or a dict.\<close>

datatype response =
    FileResponse path string string "(string \<times> string) list"
  | Dict json

record config =
  temp_dir :: string
  linear_deflection :: string
  angular_deflection :: string
  rate_limit_per_minute :: nat

text \<open>
  The collaborators of one request, as the outcomes they give: the random part of the
  name \<^verbatim>\<open>NamedTemporaryFile\<close> picks (or the error it raises), the bytes
  \<^verbatim>\<open>await file.read()\<close> returns, whether \<^verbatim>\<open>write\<close>/\<^verbatim>\<open>flush\<close> fail, the
  validator (a function of the files on disk, the path and the declared name, without
  side effects) and the kernel (given the files, the input and the output path: the bytes
  it leaves at the output path, if any, and the path it returns or the error it raises).
\<close>

record env =
  tmp_random :: "exc + string"
  upload_read :: "exc + byte list"
  upload_write :: "exc option"
  validate_file :: "(path \<Rightarrow> byte list option) \<Rightarrow> path \<Rightarrow> string \<Rightarrow> exc + string \<times> nat"
  convert :: "(path \<Rightarrow> byte list option) \<Rightarrow> path \<Rightarrow> path \<Rightarrow> byte list option \<times> (exc + path)"

text \<open>
  The observable steps of a request. \<open>Validate\<close> and \<open>Convert\<close> record the bytes
  found at the input path when the collaborator is called (and whether the validator
  accepted them); \<open>OutputWritten\<close> says that the kernel left a file at the output path.
\<close>

datatype event =
    TempCreated path
  | UploadWritten path
  | Validate path "byte list option" bool
  | Convert path path "byte list option"
  | OutputWritten path
  | OutputRead path
  | Unlink path

record state =
  files :: "path \<Rightarrow> byte list option"
  trace :: "event list"
  background :: "path option list list"

definition log_event :: "event \<Rightarrow> state \<Rightarrow> state" where
  "log_event e s = s\<lparr>trace := trace s @ [e]\<rparr>"

section \<open>Utility: cleanup of temporary files\<close>

text \<open>
  \<^verbatim>\<open>cleanup_files(*file_paths)\<close>: each path that is set and exists is unlinked.
  \<^verbatim>\<open>os.unlink\<close> of an existing file in the service's own temp directory is taken to
  succeed; the \<^verbatim>\<open>except\<close> branch only logs.
\<close>

definition cleanup_one :: "path option \<Rightarrow> state \<Rightarrow> state" where
  "cleanup_one file_path s =
     (case file_path of
        None \<Rightarrow> s
      | Some p \<Rightarrow>
          if p \<noteq> [] \<and> files s p \<noteq> None
          then log_event (Unlink p) (s\<lparr>files := (files s)(p := None)\<rparr>)
          else s)"

fun cleanup_files :: "path option list \<Rightarrow> state \<Rightarrow> state" where
  "cleanup_files [] s = s"
| "cleanup_files (p # ps) s = cleanup_files ps (cleanup_one p s)"

section \<open>Base64\<close>

text \<open>
  \<^verbatim>\<open>base64.b64encode\<close> of the standard library (RFC 4648, standard alphabet, padded):
  three bytes give four characters of six bits each, \<open>b64_char\<close> being the alphabet
  \<^verbatim>\<open>A-Z a-z 0-9 + /\<close> by index. \<open>b64decode\<close> is the decoder for
  the padded canonical form, on which Python's \<^verbatim>\<open>base64.b64decode\<close> computes the same
  bytes.
\<close>

definition b64_char :: "nat \<Rightarrow> char" where
  "b64_char n =
     (if n < 26 then char_of (65 + n)
      else if n < 52 then char_of (71 + n)
      else if n < 62 then char_of (n - 4)
      else if n = 62 then CHR ''+''
      else CHR ''/'')"


fun b64encode :: "byte list \<Rightarrow> string" where
  "b64encode [] = []"
| "b64encode [a] =
     (let x = unat a in
      [b64_char (x div 4), b64_char ((x mod 4) * 16), CHR ''='', CHR ''=''])"
| "b64encode [a, b] =
     (let x = unat a; y = unat b in
      [b64_char (x div 4), b64_char ((x mod 4) * 16 + y div 16),
       b64_char ((y mod 16) * 4), CHR ''=''])"
| "b64encode (a # b # c # rest) =
     (let x = unat a; y = unat b; z = unat c in
      [b64_char (x div 4), b64_char ((x mod 4) * 16 + y div 16),
       b64_char ((y mod 16) * 4 + z div 64), b64_char (z mod 64)] @ b64encode rest)"


section \<open>Calls to the collaborators\<close>

text \<open>
  \<^verbatim>\<open>NamedTemporaryFile(delete=False, suffix=file_ext, dir=config.temp_dir)\<close> creates
  the file exclusively: a name that exists is not taken.
\<close>

definition named_temporary_file :: "config \<Rightarrow> env \<Rightarrow> string \<Rightarrow> state \<Rightarrow> (exc + path) \<times> state" where
  "named_temporary_file cfg env suffix s =
     (case tmp_random env of
        Inl e \<Rightarrow> (Inl e, s)
      | Inr rnd \<Rightarrow>
          (let p = temp_path (temp_dir cfg) rnd suffix in
           if files s p \<noteq> None
           then (Inl (OtherException ''FileExistsError'' ''No usable temporary file name found''), s)
           else (Inr p, log_event (TempCreated p) (s\<lparr>files := (files s)(p \<mapsto> [])\<rparr>))))"

text \<open>\<^verbatim>\<open>content = await file.read(); temp_step.write(content); temp_step.flush()\<close>.\<close>

definition store_upload :: "env \<Rightarrow> path \<Rightarrow> state \<Rightarrow> (exc + unit) \<times> state" where
  "store_upload env p s =
     (case upload_read env of
        Inl e \<Rightarrow> (Inl e, s)
      | Inr content \<Rightarrow>
          (case upload_write env of
             Some e \<Rightarrow> (Inl e, s)
           | None \<Rightarrow> (Inr (), log_event (UploadWritten p) (s\<lparr>files := (files s)(p \<mapsto> content)\<rparr>))))"

text \<open>\<^verbatim>\<open>file_validator.validate_file(step_path, file.filename)\<close>.\<close>

definition call_validate :: "env \<Rightarrow> path \<Rightarrow> string \<Rightarrow> state \<Rightarrow> (exc + string \<times> nat) \<times> state" where
  "call_validate env p filename s =
     (let r = validate_file env (files s) p filename in
      (r, log_event (Validate p (files s p) (case r of Inl e \<Rightarrow> False | Inr v \<Rightarrow> True)) s))"

text \<open>\<^verbatim>\<open>conversion_service.convert(step_path, stl_path)\<close>.\<close>

definition call_convert :: "env \<Rightarrow> path \<Rightarrow> path \<Rightarrow> state \<Rightarrow> (exc + path) \<times> state" where
  "call_convert env step_path stl_path s =
     (let (written, r) = convert env (files s) step_path stl_path;
          s1 = log_event (Convert step_path stl_path (files s step_path)) s
      in (r, case written of
               None \<Rightarrow> s1
             | Some bs \<Rightarrow>
                 log_event (OutputWritten stl_path) (s1\<lparr>files := (files s1)(stl_path \<mapsto> bs)\<rparr>)))"

text \<open>\<^verbatim>\<open>os.path.getsize(path)\<close> and \<^verbatim>\<open>open(path, 'rb').read()\<close>.\<close>

definition getsize :: "path \<Rightarrow> state \<Rightarrow> exc + nat" where
  "getsize p s =
     (case files s p of
        None \<Rightarrow> Inl (OtherException ''FileNotFoundError'' ''No such file or directory'')
      | Some bs \<Rightarrow> Inr (length bs))"

definition read_file :: "path \<Rightarrow> state \<Rightarrow> (exc + byte list) \<times> state" where
  "read_file p s =
     (case files s p of
        None \<Rightarrow> (Inl (OtherException ''FileNotFoundError'' ''No such file or directory''), s)
      | Some bs \<Rightarrow> (Inr bs, log_event (OutputRead p) s))"

section \<open>The conversion endpoints\<close>

text \<open>
  The outcome of a \<^verbatim>\<open>try\<close> block: what it raised or returned, the values of the
  locals \<^verbatim>\<open>step_path\<close> and \<^verbatim>\<open>stl_path\<close> at that point (the \<^verbatim>\<open>except\<close> and
  \<^verbatim>\<open>finally\<close> clauses read them), and the state.
\<close>

type_synonym attempt = "(raised + response) \<times> path option \<times> path option \<times> state"

text \<open>\<^verbatim>\<open>background_tasks.add_task(cleanup_files, step_path, stl_path)\<close>.\<close>

definition add_task :: "path option list \<Rightarrow> state \<Rightarrow> state" where
  "add_task paths s = s\<lparr>background := background s @ [paths]\<rparr>"

text \<open>The \<^verbatim>\<open>try\<close> block of \<^verbatim>\<open>convert_step_to_stl\<close> (POST /convert/step-to-stl).\<close>

definition convert_step_to_stl_try :: "config \<Rightarrow> env \<Rightarrow> string \<Rightarrow> state \<Rightarrow> attempt" where
  "convert_step_to_stl_try cfg env filename s0 =
     (let file_ext = lower (path_suffix filename) in
      case named_temporary_file cfg env file_ext s0 of
        (Inl e, s1) \<Rightarrow> (Inl (Uncaught e), None, None, s1)
      | (Inr step_path, s1) \<Rightarrow>
          (case store_upload env step_path s1 of
             (Inl e, s2) \<Rightarrow> (Inl (Uncaught e), Some step_path, None, s2)
           | (Inr u, s2) \<Rightarrow>
               (case call_validate env step_path filename s2 of
                  (Inl (FileValidationError m), s3) \<Rightarrow>
                    (Inl (HTTPException 400 m), Some step_path, None,
                     cleanup_files [Some step_path] s3)
                | (Inl e, s3) \<Rightarrow> (Inl (Uncaught e), Some step_path, None, s3)
                | (Inr validated, s3) \<Rightarrow>
                    (let stl_path = with_suffix step_path ''.stl'' in
                     case call_convert env step_path stl_path s3 of
                       (Inl (ConversionError m), s4) \<Rightarrow>
                         (Inl (HTTPException 422 (''Conversion failed: '' @ m)),
                          Some step_path, Some stl_path,
                          cleanup_files [Some step_path, Some stl_path] s4)
                     | (Inl e, s4) \<Rightarrow> (Inl (Uncaught e), Some step_path, Some stl_path, s4)
                     | (Inr output_path, s4) \<Rightarrow>
                         (let s5 = add_task [Some step_path, Some stl_path] s4 in
                          case getsize output_path s5 of
                            Inl e \<Rightarrow> (Inl (Uncaught e), Some step_path, Some stl_path, s5)
                          | Inr size_bytes \<Rightarrow>
                              (Inr (FileResponse output_path ''application/octet-stream''
                                      (path_stem filename @ ''.stl'')
                                      [(''X-Original-Filename'', filename),
                                       (''X-Conversion-Engine'', ''OpenCascade''),
                                       (''X-File-Size'', str_nat size_bytes),
                                       (''X-Mesh-Quality'',
                                        ''linear='' @ linear_deflection cfg @ '',angular=''
                                          @ angular_deflection cfg)]),
                               Some step_path, Some stl_path, s5))))))"

text \<open>
  \<^verbatim>\<open>convert_step_to_stl\<close>: the \<^verbatim>\<open>try\<close> block under
  \<^verbatim>\<open>except HTTPException: raise\<close> and \<^verbatim>\<open>except Exception\<close>, which cleans up and
  raises the 500.
\<close>

definition convert_step_to_stl :: "config \<Rightarrow> env \<Rightarrow> string \<Rightarrow> state \<Rightarrow> (raised + response) \<times> state" where
  "convert_step_to_stl cfg env filename s0 =
     (case convert_step_to_stl_try cfg env filename s0 of
        (Inl (Uncaught e), step_path, stl_path, s) \<Rightarrow>
          (Inl (HTTPException 500 ''Internal server error during conversion''),
           cleanup_files [step_path, stl_path] s)
      | (r, step_path, stl_path, s) \<Rightarrow> (r, s))"

text \<open>The \<^verbatim>\<open>try\<close> block of \<^verbatim>\<open>convert_step_to_stl_base64\<close>
  (POST /convert/step-to-stl-base64).\<close>

definition convert_step_to_stl_base64_try :: "config \<Rightarrow> env \<Rightarrow> string \<Rightarrow> state \<Rightarrow> attempt" where
  "convert_step_to_stl_base64_try cfg env filename s0 =
     (let file_ext = lower (path_suffix filename) in
      case named_temporary_file cfg env file_ext s0 of
        (Inl e, s1) \<Rightarrow> (Inl (Uncaught e), None, None, s1)
      | (Inr step_path, s1) \<Rightarrow>
          (case store_upload env step_path s1 of
             (Inl e, s2) \<Rightarrow> (Inl (Uncaught e), Some step_path, None, s2)
           | (Inr u, s2) \<Rightarrow>
               (case call_validate env step_path filename s2 of
                  (Inl (FileValidationError m), s3) \<Rightarrow>
                    (Inl (HTTPException 400 m), Some step_path, None,
                     cleanup_files [Some step_path] s3)
                | (Inl e, s3) \<Rightarrow> (Inl (Uncaught e), Some step_path, None, s3)
                | (Inr validated, s3) \<Rightarrow>
                    (let stl_path = with_suffix step_path ''.stl'' in
                     case call_convert env step_path stl_path s3 of
                       (Inl (ConversionError m), s4) \<Rightarrow>
                         (Inl (HTTPException 422 (''Conversion failed: '' @ m)),
                          Some step_path, Some stl_path,
                          cleanup_files [Some step_path, Some stl_path] s4)
                     | (Inl e, s4) \<Rightarrow> (Inl (Uncaught e), Some step_path, Some stl_path, s4)
                     | (Inr output_path, s4) \<Rightarrow>
                         (case read_file output_path s4 of
                            (Inl e, s5) \<Rightarrow> (Inl (Uncaught e), Some step_path, Some stl_path, s5)
                          | (Inr stl_data, s5) \<Rightarrow>
                              (Inr (Dict (JObj
                                 [(''success'', JBool True),
                                  (''original_filename'', JStr filename),
                                  (''stl_filename'', JStr (path_stem filename @ ''.stl'')),
                                  (''stl_size'', JNat (length stl_data)),
                                  (''stl_base64'', JStr (b64encode stl_data)),
                                  (''mesh_quality'', JObj
                                     [(''linear_deflection'', JFloat (linear_deflection cfg)),
                                      (''angular_deflection'', JFloat (angular_deflection cfg))])])),
                               Some step_path, Some stl_path, s5))))))"

text \<open>\<^verbatim>\<open>convert_step_to_stl_base64\<close>: the \<^verbatim>\<open>try\<close> block under
  \<^verbatim>\<open>finally: cleanup_files(step_path, stl_path)\<close>; there is no \<^verbatim>\<open>except\<close>.\<close>

definition convert_step_to_stl_base64 :: "config \<Rightarrow> env \<Rightarrow> string \<Rightarrow> state \<Rightarrow> (raised + response) \<times> state" where
  "convert_step_to_stl_base64 cfg env filename s0 =
     (case convert_step_to_stl_base64_try cfg env filename s0 of
        (r, step_path, stl_path, s) \<Rightarrow> (r, cleanup_files [step_path, stl_path] s))"

section \<open>Error handlers and the response sent to the client\<close>

datatype payload =
    FileContent "byte list" string string "(string \<times> string) list"
  | JSONContent json
  | PlainText string

record client_response =
  status :: nat
  payload :: payload

text \<open>\<^verbatim>\<open>cad_engine_exception_handler\<close>, registered for \<^verbatim>\<open>CADEngineException\<close>.\<close>

definition cad_engine_exception_handler :: "exc \<Rightarrow> client_response" where
  "cad_engine_exception_handler e =
     \<lparr>status = 422,
      payload = JSONContent (JObj
        [(''error'', JStr ''CAD Engine Error''),
         (''detail'', JStr (exc_str e)),
         (''type'', JStr (exc_class_name e))])\<rparr>"

text \<open>The background tasks run after the response has been sent.\<close>

definition run_background :: "state \<Rightarrow> state" where
  "run_background s = (fold cleanup_files (background s) s)\<lparr>background := []\<rparr>"

text \<open>
  What the application sends for the outcome of a handler. A returned response goes out
  with status 200 and the scheduled background tasks run after it; an
  \<^verbatim>\<open>HTTPException\<close> becomes its status code with the detail in a JSON body (FastAPI's
  handler); an exception of the \<^verbatim>\<open>CADEngineException\<close> family goes to the handler
  registered for it; any other exception is answered by the server's default 500.
\<close>

definition send_response :: "(raised + response) \<times> state \<Rightarrow> client_response \<times> state" where
  "send_response rs =
     (case rs of
        (Inr (Dict j), s) \<Rightarrow> (\<lparr>status = 200, payload = JSONContent j\<rparr>, run_background s)
      | (Inr (FileResponse p media_type name headers), s) \<Rightarrow>
          (case files s p of
             Some bs \<Rightarrow>
               (\<lparr>status = 200, payload = FileContent bs media_type name headers\<rparr>,
                run_background s)
           | None \<Rightarrow> (\<lparr>status = 500, payload = PlainText ''Internal Server Error''\<rparr>, s))
      | (Inl (HTTPException code detail), s) \<Rightarrow>
          (\<lparr>status = code, payload = JSONContent (JObj [(''detail'', JStr detail)])\<rparr>, s)
      | (Inl (Uncaught e), s) \<Rightarrow>
          (if is_cad_engine_exception e then cad_engine_exception_handler e
           else \<lparr>status = 500, payload = PlainText ''Internal Server Error''\<rparr>, s))"

datatype endpoint = StepToStl | StepToStlBase64

text \<open>
  One request to an endpoint. The \<^verbatim>\<open>BackgroundTasks\<close> object a handler receives is
  made for the request, so the list of scheduled tasks starts empty.
\<close>

definition run_endpoint :: "endpoint \<Rightarrow> config \<Rightarrow> env \<Rightarrow> string \<Rightarrow> state \<Rightarrow> client_response \<times> state" where
  "run_endpoint ep cfg env filename s =
     send_response
       (case ep of
          StepToStl \<Rightarrow> convert_step_to_stl cfg env filename (s\<lparr>background := []\<rparr>)
        | StepToStlBase64 \<Rightarrow> convert_step_to_stl_base64 cfg env filename (s\<lparr>background := []\<rparr>))"

section \<open>Rate limiting\<close>

text \<open>
  Modelled from the spec: the limiter behind \<^verbatim>\<open>@limiter.limit("N/minute")\<close> and the
  handler registered for \<^verbatim>\<open>RateLimitExceeded\<close> are the slowapi library, which is not
  among the sources. Section 4.5 of the specification: fixed-window counting per client
  identity (the remote address) with a ceiling of requests per minute; on rejection the
  endpoint is not invoked and the outcome is a 429. The window of a key opens at its first
  hit and lasts sixty seconds; each decorated endpoint counts on its own.
\<close>

record request =
  target :: endpoint
  remote_address :: string
  arrival :: nat
  upload_name :: string
  collaborators :: env

record server =
  limiter :: "endpoint \<times> string \<Rightarrow> (nat \<times> nat) option"
  disk :: state

definition limiter_key :: "request \<Rightarrow> endpoint \<times> string" where
  "limiter_key rq = (target rq, remote_address rq)"

definition limiter_hit :: "nat \<Rightarrow> nat \<Rightarrow> (nat \<times> nat) option \<Rightarrow> bool \<times> (nat \<times> nat)" where
  "limiter_hit limit now window =
     (case window of
        None \<Rightarrow> (1 \<le> limit, (now + 60, 1))
      | Some (expiry, n) \<Rightarrow>
          if now < expiry then (n + 1 \<le> limit, (expiry, n + 1))
          else (1 \<le> limit, (now + 60, 1)))"

definition rate_limit_exceeded_handler :: "config \<Rightarrow> client_response" where
  "rate_limit_exceeded_handler cfg =
     \<lparr>status = 429,
      payload = JSONContent (JObj
        [(''error'', JStr (''Rate limit exceeded: '' @ str_nat (rate_limit_per_minute cfg)
                            @ '' per 1 minute''))])\<rparr>"

definition handle_request :: "config \<Rightarrow> request \<Rightarrow> server \<Rightarrow> client_response \<times> server" where
  "handle_request cfg rq sv =
     (let (admitted, window) =
            limiter_hit (rate_limit_per_minute cfg) (arrival rq) (limiter sv (limiter_key rq));
          sv1 = sv\<lparr>limiter := (limiter sv)(limiter_key rq \<mapsto> window)\<rparr>
      in if \<not> admitted then (rate_limit_exceeded_handler cfg, sv1)
         else (let (resp, s) = run_endpoint (target rq) cfg (collaborators rq) (upload_name rq) (disk sv1)
               in (resp, sv1\<lparr>disk := s\<rparr>)))"

fun serve :: "config \<Rightarrow> request list \<Rightarrow> server \<Rightarrow> client_response list \<times> server" where
  "serve cfg [] sv = ([], sv)"
| "serve cfg (rq # rqs) sv =
     (let (resp, sv1) = handle_request cfg rq sv;
          (resps, sv2) = serve cfg rqs sv1
      in (resp # resps, sv2))"

section \<open>Reading a request's trace\<close>

text \<open>The events a request added to the trace.\<close>

definition request_events :: "state \<Rightarrow> state \<Rightarrow> event list" where
  "request_events s0 s1 = drop (length (trace s0)) (trace s1)"

text \<open>
  The temp paths a request allocates: the name of the temporary file it creates and the
  output path it derives and hands to the kernel. The files it brings into being: the
  temporary file, and the output when the kernel leaves one.
\<close>

fun allocated_by :: "event \<Rightarrow> path list" where
  "allocated_by (TempCreated p) = [p]"
| "allocated_by (Convert p q c) = [q]"
| "allocated_by e = []"

definition allocated_paths :: "event list \<Rightarrow> path list" where
  "allocated_paths evs = concat (map allocated_by evs)"

fun made_by :: "event \<Rightarrow> path list" where
  "made_by (TempCreated p) = [p]"
| "made_by (OutputWritten q) = [q]"
| "made_by e = []"

definition files_made :: "event list \<Rightarrow> path list" where
  "files_made evs = concat (map made_by evs)"

definition unlinks :: "path \<Rightarrow> event list \<Rightarrow> nat" where
  "unlinks p evs = count_list evs (Unlink p)"

fun is_kernel_call :: "event \<Rightarrow> bool" where
  "is_kernel_call (Convert p q c) = True"
| "is_kernel_call e = False"

definition kernel_calls :: "event list \<Rightarrow> nat" where
  "kernel_calls evs = length (filter is_kernel_call evs)"

fun is_validation :: "event \<Rightarrow> bool" where
  "is_validation (Validate p c ok) = True"
| "is_validation e = False"

text \<open>
  \<open>validated_first vs evs\<close>: every kernel call in \<open>evs\<close> is on a path and on bytes that
  the validator has accepted before, \<open>vs\<close> being the accepted (path, bytes) pairs so far.
  An acceptance stops counting once the file at the path is written again or removed.
\<close>

fun validated_first :: "(path \<times> byte list option) list \<Rightarrow> event list \<Rightarrow> bool" where
  "validated_first vs [] = True"
| "validated_first vs (Validate p c ok # es) =
     validated_first (if ok then (p, c) # vs else vs) es"
| "validated_first vs (Convert p q c # es) = ((p, c) \<in> set vs \<and> validated_first vs es)"
| "validated_first vs (TempCreated p # es) = validated_first (filter (\<lambda>v. fst v \<noteq> p) vs) es"
| "validated_first vs (UploadWritten p # es) = validated_first (filter (\<lambda>v. fst v \<noteq> p) vs) es"
| "validated_first vs (OutputWritten p # es) = validated_first (filter (\<lambda>v. fst v \<noteq> p) vs) es"
| "validated_first vs (Unlink p # es) = validated_first (filter (\<lambda>v. fst v \<noteq> p) vs) es"
| "validated_first vs (OutputRead p # es) = validated_first vs es"

text \<open>
  \<open>persisted_first ws evs\<close>: every call of the validator and of the kernel in \<open>evs\<close> is
  on a path the upload has been written to before, \<open>ws\<close> being the paths written so far.
\<close>

fun persisted_first :: "path list \<Rightarrow> event list \<Rightarrow> bool" where
  "persisted_first ws [] = True"
| "persisted_first ws (UploadWritten p # es) = persisted_first (p # ws) es"
| "persisted_first ws (Validate p c ok # es) = (p \<in> set ws \<and> persisted_first ws es)"
| "persisted_first ws (Convert p q c # es) = (p \<in> set ws \<and> persisted_first ws es)"
| "persisted_first ws (TempCreated p # es) = persisted_first ws es"
| "persisted_first ws (OutputWritten p # es) = persisted_first ws es"
| "persisted_first ws (OutputRead p # es) = persisted_first ws es"
| "persisted_first ws (Unlink p # es) = persisted_first ws es"



text \<open>
  The state a request has reached once the upload is persisted and the validator has
  given its verdict, and once the kernel has been called (\<open>w\<close> is what it left at the
  output path), in terms of the state \<open>s0\<close> the request started in.
\<close>

definition after_validation :: "state \<Rightarrow> path \<Rightarrow> byte list \<Rightarrow> bool \<Rightarrow> state" where
  "after_validation s0 step content ok =
     s0\<lparr>files := (files s0)(step \<mapsto> content),
        trace := trace s0 @ [TempCreated step, UploadWritten step,
                             Validate step (Some content) ok]\<rparr>"

definition after_conversion :: "state \<Rightarrow> path \<Rightarrow> byte list \<Rightarrow> byte list option \<Rightarrow> state" where
  "after_conversion s0 step content w =
     (let stl = with_suffix step ''.stl'';
          s3 = after_validation s0 step content True;
          s4 = s3\<lparr>trace := trace s3 @ [Convert step stl (Some content)]\<rparr>
      in case w of
           None \<Rightarrow> s4
         | Some bs \<Rightarrow> s4\<lparr>files := (files s4)(stl \<mapsto> bs),
                          trace := trace s4 @ [OutputWritten stl]\<rparr>)"

section \<open>Example requests\<close>

definition example_config :: config where
  "example_config =
     \<lparr>temp_dir = ''/tmp/cad'', linear_deflection = ''0.1'', angular_deflection = ''0.5'',
      rate_limit_per_minute = 2\<rparr>"

definition empty_state :: state where
  "empty_state = \<lparr>files = (\<lambda>p. None), trace = [], background = []\<rparr>"

text \<open>
  Collaborators for the examples: the upload is three bytes, the temporary name has the
  random part \<^verbatim>\<open>k3x9_q2a\<close>, the validator gives the outcome \<open>v\<close> and the kernel, for
  the output path \<open>q\<close>, the outcome \<open>k q\<close>.
\<close>

definition example_env :: "(exc + string \<times> nat) \<Rightarrow> (path \<Rightarrow> byte list option \<times> (exc + path)) \<Rightarrow> env" where
  "example_env v k =
     \<lparr>tmp_random = Inr ''k3x9_q2a'', upload_read = Inr [73, 83, 79], upload_write = None,
      validate_file = (\<lambda>fs p name. v), convert = (\<lambda>fs p q. k q)\<rparr>"

definition accepted :: "exc + string \<times> nat" where
  "accepted = Inr (''.step'', 3)"

definition kernel_writes :: "byte list \<Rightarrow> path \<Rightarrow> byte list option \<times> (exc + path)" where
  "kernel_writes bs q = (Some bs, Inr q)"


definition kernel_fails_partway :: "byte list \<Rightarrow> exc \<Rightarrow> path \<Rightarrow> byte list option \<times> (exc + path)" where
  "kernel_fails_partway bs e q = (Some bs, Inl e)"

section \<open>The stages of a request\<close>

text \<open>
  Each collaborator call either fails or moves the request to a state that can be written
  down; the two \<^verbatim>\<open>try\<close> blocks then end in one of eight ways.
\<close>

lemma temp_path_nonempty [simp]: "temp_path d r x \<noteq> []"
  by (simp add: temp_path_def join_path_def)

lemma with_suffix_nonempty [simp]: "with_suffix p ''.stl'' \<noteq> []"
  by (simp add: with_suffix_def)

lemma named_temporary_file_cases:
  obtains (failed) e where "named_temporary_file cfg env x s = (Inl e, s)"
  | (created) p where "files s p = None" "p \<noteq> []"
      "named_temporary_file cfg env x s =
         (Inr p, s\<lparr>files := (files s)(p \<mapsto> []), trace := trace s @ [TempCreated p]\<rparr>)"
proof (cases "tmp_random env")
  case (Inl e)
  then show ?thesis using failed by (simp add: named_temporary_file_def)
next
  case (Inr rnd)
  show ?thesis
  proof (cases "files s (temp_path (temp_dir cfg) rnd x)")
    case None
    with Inr have "named_temporary_file cfg env x s =
         (Inr (temp_path (temp_dir cfg) rnd x),
          s\<lparr>files := (files s)(temp_path (temp_dir cfg) rnd x \<mapsto> []),
            trace := trace s @ [TempCreated (temp_path (temp_dir cfg) rnd x)]\<rparr>)"
      by (simp add: named_temporary_file_def log_event_def Let_def)
    with None show ?thesis by (intro created) simp_all
  next
    case (Some bs)
    with Inr show ?thesis using failed by (simp add: named_temporary_file_def)
  qed
qed

lemma store_upload_cases:
  obtains (failed) e where "store_upload env p s = (Inl e, s)"
  | (stored) content where
      "store_upload env p s =
         (Inr (), s\<lparr>files := (files s)(p \<mapsto> content), trace := trace s @ [UploadWritten p]\<rparr>)"
proof (cases "upload_read env")
  case (Inl e)
  then show ?thesis using failed by (simp add: store_upload_def)
next
  case (Inr content)
  then show ?thesis using failed stored
    by (cases "upload_write env") (simp_all add: store_upload_def log_event_def)
qed

lemma call_validate_cases:
  obtains (raised) e where
      "call_validate env p f s = (Inl e, s\<lparr>trace := trace s @ [Validate p (files s p) False]\<rparr>)"
  | (passed) v where
      "call_validate env p f s = (Inr v, s\<lparr>trace := trace s @ [Validate p (files s p) True]\<rparr>)"
  by (cases "validate_file env (files s) p f")
     (simp_all add: call_validate_def log_event_def)

lemma call_convert_cases:
  obtains (nothing) r where
      "call_convert env a b s = (r, s\<lparr>trace := trace s @ [Convert a b (files s a)]\<rparr>)"
  | (written) r bs where
      "call_convert env a b s =
         (r, s\<lparr>files := (files s)(b \<mapsto> bs),
               trace := trace s @ [Convert a b (files s a), OutputWritten b]\<rparr>)"
proof (cases "convert env (files s) a b")
  case (Pair w r)
  show ?thesis
  proof (cases w)
    case None
    with Pair have "call_convert env a b s = (r, s\<lparr>trace := trace s @ [Convert a b (files s a)]\<rparr>)"
      by (simp add: call_convert_def log_event_def)
    then show ?thesis by (rule nothing)
  next
    case (Some bs)
    with Pair have "call_convert env a b s =
         (r, s\<lparr>files := (files s)(b \<mapsto> bs),
               trace := trace s @ [Convert a b (files s a), OutputWritten b]\<rparr>)"
      by (simp add: call_convert_def log_event_def)
    then show ?thesis by (rule written)
  qed
qed



lemma convert_step_to_stl_try_cases:
  fixes cfg env filename s0
  defines "T \<equiv> convert_step_to_stl_try cfg env filename s0"
  obtains
    (no_temp) e where "T = (Inl (Uncaught e), None, None, s0)"
  | (no_upload) e step where "files s0 step = None" "step \<noteq> []"
      "T = (Inl (Uncaught e), Some step, None,
            s0\<lparr>files := (files s0)(step \<mapsto> []), trace := trace s0 @ [TempCreated step]\<rparr>)"
  | (rejected) m step content where "files s0 step = None" "step \<noteq> []"
      "T = (Inl (HTTPException 400 m), Some step, None,
            cleanup_files [Some step] (after_validation s0 step content False))"
  | (validator_crashed) e step content where "files s0 step = None" "step \<noteq> []"
      "T = (Inl (Uncaught e), Some step, None, after_validation s0 step content False)"
  | (conversion_failed) m step content w where "files s0 step = None" "step \<noteq> []"
      "T = (Inl (HTTPException 422 (''Conversion failed: '' @ m)),
            Some step, Some (with_suffix step ''.stl''),
            cleanup_files [Some step, Some (with_suffix step ''.stl'')]
              (after_conversion s0 step content w))"
  | (kernel_crashed) e step content w where "files s0 step = None" "step \<noteq> []"
      "T = (Inl (Uncaught e), Some step, Some (with_suffix step ''.stl''),
            after_conversion s0 step content w)"
  | (no_output) e step content w where "files s0 step = None" "step \<noteq> []"
      "T = (Inl (Uncaught e), Some step, Some (with_suffix step ''.stl''),
            add_task [Some step, Some (with_suffix step ''.stl'')]
              (after_conversion s0 step content w))"
  | (success) step content w out data where "files s0 step = None" "step \<noteq> []"
      "files (after_conversion s0 step content w) out = Some data"
      "T = (Inr (FileResponse out ''application/octet-stream'' (path_stem filename @ ''.stl'')
                   [(''X-Original-Filename'', filename),
                    (''X-Conversion-Engine'', ''OpenCascade''),
                    (''X-File-Size'', str_nat (length data)),
                    (''X-Mesh-Quality'',
                     ''linear='' @ linear_deflection cfg @ '',angular='' @ angular_deflection cfg)]),
            Some step, Some (with_suffix step ''.stl''),
            add_task [Some step, Some (with_suffix step ''.stl'')]
              (after_conversion s0 step content w))"
proof (cases rule: named_temporary_file_cases[of cfg env "lower (path_suffix filename)" s0])
  case (failed e)
  then show ?thesis by (intro no_temp[of e]) (simp add: T_def convert_step_to_stl_try_def)
next
  case (created step)
  note c = created
  define s1 where "s1 = s0\<lparr>files := (files s0)(step \<mapsto> []), trace := trace s0 @ [TempCreated step]\<rparr>"
  show ?thesis
  proof (cases rule: store_upload_cases[of env step s1])
    case (failed e)
    with c show ?thesis
      by (intro no_upload[of step e]) (simp_all add: T_def convert_step_to_stl_try_def s1_def)
  next
    case (stored content)
    note st = stored
    define s2 where "s2 = s1\<lparr>files := (files s1)(step \<mapsto> content), trace := trace s1 @ [UploadWritten step]\<rparr>"
    have s2: "files s2 step = Some content" by (simp add: s2_def)
    show ?thesis
    proof (cases rule: call_validate_cases[of env step filename s2])
      case (raised e)
      have s3: "s2\<lparr>trace := trace s2 @ [Validate step (files s2 step) False]\<rparr>
                  = after_validation s0 step content False"
        by (simp add: s2_def s1_def after_validation_def)
      show ?thesis
      proof (cases e)
        case (FileValidationError m)
        with c st raised s3 show ?thesis
          by (intro rejected[of step m content])
             (simp_all add: T_def convert_step_to_stl_try_def s1_def[symmetric] s2_def[symmetric])
      next
        case (ConversionError m)
        with c st raised s3 show ?thesis
          by (intro validator_crashed[of step e content])
             (simp_all add: T_def convert_step_to_stl_try_def s1_def[symmetric] s2_def[symmetric])
      next
        case (CADEngineException cl m)
        with c st raised s3 show ?thesis
          by (intro validator_crashed[of step e content])
             (simp_all add: T_def convert_step_to_stl_try_def s1_def[symmetric] s2_def[symmetric])
      next
        case (OtherException cl m)
        with c st raised s3 show ?thesis
          by (intro validator_crashed[of step e content])
             (simp_all add: T_def convert_step_to_stl_try_def s1_def[symmetric] s2_def[symmetric])
      qed
    next
      case (passed v)
      define stl where "stl = with_suffix step ''.stl''"
      define s3 where "s3 = s2\<lparr>trace := trace s2 @ [Validate step (files s2 step) True]\<rparr>"
      have s3: "s3 = after_validation s0 step content True"
        by (simp add: s3_def s2_def s1_def after_validation_def)
      have "\<exists>r w. call_convert env step stl s3 = (r, after_conversion s0 step content w)"
      proof (cases rule: call_convert_cases[of env step stl s3])
        case (nothing r)
        then have "call_convert env step stl s3 = (r, after_conversion s0 step content None)"
          by (simp add: s3 after_conversion_def after_validation_def stl_def Let_def)
        then show ?thesis by blast
      next
        case (written r bs)
        then have "call_convert env step stl s3 = (r, after_conversion s0 step content (Some bs))"
          by (simp add: s3 after_conversion_def after_validation_def stl_def Let_def)
        then show ?thesis by blast
      qed
      then obtain r w where cc: "call_convert env step stl s3 = (r, after_conversion s0 step content w)"
        by blast
      note unf = T_def convert_step_to_stl_try_def s1_def[symmetric] s2_def[symmetric]
        s3_def[symmetric] stl_def[symmetric] Let_def
      show ?thesis
      proof (cases r)
        case (Inl e)
        show ?thesis
        proof (cases e)
          case (ConversionError m)
          with c st passed cc Inl show ?thesis
            by (intro conversion_failed[of step m content w]) (simp_all add: unf)
        next
          case (FileValidationError m)
          with c st passed cc Inl show ?thesis
            by (intro kernel_crashed[of step e content w]) (simp_all add: unf)
        next
          case (CADEngineException cl m)
          with c st passed cc Inl show ?thesis
            by (intro kernel_crashed[of step e content w]) (simp_all add: unf)
        next
          case (OtherException cl m)
          with c st passed cc Inl show ?thesis
            by (intro kernel_crashed[of step e content w]) (simp_all add: unf)
        qed
      next
        case (Inr out)
        show ?thesis
        proof (cases "files (after_conversion s0 step content w) out")
          case None
          with c st passed cc Inr show ?thesis
            by (intro no_output[of step _ content w])
               (simp_all add: unf getsize_def add_task_def)
        next
          case (Some data)
          with c st passed cc Inr show ?thesis
            by (intro success[of step content w out data])
               (simp_all add: unf getsize_def add_task_def)
        qed
      qed
    qed
  qed
qed

lemma convert_step_to_stl_base64_try_cases:
  fixes cfg env filename s0
  defines "T \<equiv> convert_step_to_stl_base64_try cfg env filename s0"
  obtains
    (no_temp) e where "T = (Inl (Uncaught e), None, None, s0)"
  | (no_upload) e step where "files s0 step = None" "step \<noteq> []"
      "T = (Inl (Uncaught e), Some step, None,
            s0\<lparr>files := (files s0)(step \<mapsto> []), trace := trace s0 @ [TempCreated step]\<rparr>)"
  | (rejected) m step content where "files s0 step = None" "step \<noteq> []"
      "T = (Inl (HTTPException 400 m), Some step, None,
            cleanup_files [Some step] (after_validation s0 step content False))"
  | (validator_crashed) e step content where "files s0 step = None" "step \<noteq> []"
      "T = (Inl (Uncaught e), Some step, None, after_validation s0 step content False)"
  | (conversion_failed) m step content w where "files s0 step = None" "step \<noteq> []"
      "T = (Inl (HTTPException 422 (''Conversion failed: '' @ m)),
            Some step, Some (with_suffix step ''.stl''),
            cleanup_files [Some step, Some (with_suffix step ''.stl'')]
              (after_conversion s0 step content w))"
  | (kernel_crashed) e step content w where "files s0 step = None" "step \<noteq> []"
      "T = (Inl (Uncaught e), Some step, Some (with_suffix step ''.stl''),
            after_conversion s0 step content w)"
  | (no_output) e step content w out where "files s0 step = None" "step \<noteq> []"
      "files (after_conversion s0 step content w) out = None"
      "T = (Inl (Uncaught e), Some step, Some (with_suffix step ''.stl''),
            after_conversion s0 step content w)"
  | (success) step content w out data where "files s0 step = None" "step \<noteq> []"
      "files (after_conversion s0 step content w) out = Some data"
      "T = (Inr (Dict (JObj
                 [(''success'', JBool True),
                  (''original_filename'', JStr filename),
                  (''stl_filename'', JStr (path_stem filename @ ''.stl'')),
                  (''stl_size'', JNat (length data)),
                  (''stl_base64'', JStr (b64encode data)),
                  (''mesh_quality'', JObj
                     [(''linear_deflection'', JFloat (linear_deflection cfg)),
                      (''angular_deflection'', JFloat (angular_deflection cfg))])])),
            Some step, Some (with_suffix step ''.stl''),
            (after_conversion s0 step content w)
              \<lparr>trace := trace (after_conversion s0 step content w) @ [OutputRead out]\<rparr>)"
proof (cases rule: named_temporary_file_cases[of cfg env "lower (path_suffix filename)" s0])
  case (failed e)
  then show ?thesis by (intro no_temp[of e]) (simp add: T_def convert_step_to_stl_base64_try_def)
next
  case (created step)
  note c = created
  define s1 where "s1 = s0\<lparr>files := (files s0)(step \<mapsto> []), trace := trace s0 @ [TempCreated step]\<rparr>"
  show ?thesis
  proof (cases rule: store_upload_cases[of env step s1])
    case (failed e)
    with c show ?thesis
      by (intro no_upload[of step e]) (simp_all add: T_def convert_step_to_stl_base64_try_def s1_def)
  next
    case (stored content)
    note st = stored
    define s2 where "s2 = s1\<lparr>files := (files s1)(step \<mapsto> content), trace := trace s1 @ [UploadWritten step]\<rparr>"
    have s2: "files s2 step = Some content" by (simp add: s2_def)
    show ?thesis
    proof (cases rule: call_validate_cases[of env step filename s2])
      case (raised e)
      have s3: "s2\<lparr>trace := trace s2 @ [Validate step (files s2 step) False]\<rparr>
                  = after_validation s0 step content False"
        by (simp add: s2_def s1_def after_validation_def)
      show ?thesis
      proof (cases e)
        case (FileValidationError m)
        with c st raised s3 show ?thesis
          by (intro rejected[of step m content])
             (simp_all add: T_def convert_step_to_stl_base64_try_def s1_def[symmetric] s2_def[symmetric])
      next
        case (ConversionError m)
        with c st raised s3 show ?thesis
          by (intro validator_crashed[of step e content])
             (simp_all add: T_def convert_step_to_stl_base64_try_def s1_def[symmetric] s2_def[symmetric])
      next
        case (CADEngineException cl m)
        with c st raised s3 show ?thesis
          by (intro validator_crashed[of step e content])
             (simp_all add: T_def convert_step_to_stl_base64_try_def s1_def[symmetric] s2_def[symmetric])
      next
        case (OtherException cl m)
        with c st raised s3 show ?thesis
          by (intro validator_crashed[of step e content])
             (simp_all add: T_def convert_step_to_stl_base64_try_def s1_def[symmetric] s2_def[symmetric])
      qed
    next
      case (passed v)
      define stl where "stl = with_suffix step ''.stl''"
      define s3 where "s3 = s2\<lparr>trace := trace s2 @ [Validate step (files s2 step) True]\<rparr>"
      have s3: "s3 = after_validation s0 step content True"
        by (simp add: s3_def s2_def s1_def after_validation_def)
      have "\<exists>r w. call_convert env step stl s3 = (r, after_conversion s0 step content w)"
      proof (cases rule: call_convert_cases[of env step stl s3])
        case (nothing r)
        then have "call_convert env step stl s3 = (r, after_conversion s0 step content None)"
          by (simp add: s3 after_conversion_def after_validation_def stl_def Let_def)
        then show ?thesis by blast
      next
        case (written r bs)
        then have "call_convert env step stl s3 = (r, after_conversion s0 step content (Some bs))"
          by (simp add: s3 after_conversion_def after_validation_def stl_def Let_def)
        then show ?thesis by blast
      qed
      then obtain r w where cc: "call_convert env step stl s3 = (r, after_conversion s0 step content w)"
        by blast
      note unf = T_def convert_step_to_stl_base64_try_def s1_def[symmetric] s2_def[symmetric]
        s3_def[symmetric] stl_def[symmetric] Let_def
      show ?thesis
      proof (cases r)
        case (Inl e)
        show ?thesis
        proof (cases e)
          case (ConversionError m)
          with c st passed cc Inl show ?thesis
            by (intro conversion_failed[of step m content w]) (simp_all add: unf)
        next
          case (FileValidationError m)
          with c st passed cc Inl show ?thesis
            by (intro kernel_crashed[of step e content w]) (simp_all add: unf)
        next
          case (CADEngineException cl m)
          with c st passed cc Inl show ?thesis
            by (intro kernel_crashed[of step e content w]) (simp_all add: unf)
        next
          case (OtherException cl m)
          with c st passed cc Inl show ?thesis
            by (intro kernel_crashed[of step e content w]) (simp_all add: unf)
        qed
      next
        case (Inr out)
        show ?thesis
        proof (cases "files (after_conversion s0 step content w) out")
          case None
          with c st passed cc Inr show ?thesis
            by (intro no_output[of step content w out])
               (simp_all add: unf read_file_def)
        next
          case (Some data)
          with c st passed cc Inr show ?thesis
            by (intro success[of step content w out data])
               (simp_all add: unf read_file_def log_event_def)
        qed
      qed
    qed
  qed
qed

section \<open>Validation failure\<close>

lemmas trace_defs = request_events_def allocated_paths_def files_made_def unlinks_def kernel_calls_def
lemmas state_defs = after_validation_def after_conversion_def cleanup_one_def log_event_def
  add_task_def run_background_def Let_def
lemmas call_defs = named_temporary_file_def store_upload_def call_validate_def call_convert_def
  getsize_def read_file_def
lemmas endpoint_defs = run_endpoint_def send_response_def convert_step_to_stl_def
  convert_step_to_stl_try_def convert_step_to_stl_base64_def convert_step_to_stl_base64_try_def

lemma example_step_path:
  "temp_path (temp_dir example_config) ''k3x9_q2a'' (lower (path_suffix ''part.step'')) = ''/tmp/cad/tmpk3x9_q2a.step''"
  by code_simp

text \<open>
  C5. When \<^verbatim>\<open>validate_file\<close> raises \<^verbatim>\<open>FileValidationError\<close> on the persisted
  upload, either endpoint answers 400 with the validator's message, the persisted input
  file is unlinked (the files on disk are those from before the request), the kernel is
  not called and no output path is allocated: the only path of the request is the input
  path.
\<close>

theorem validation_rejection:
  assumes "tmp_random env = Inr rnd"
    and "step = temp_path (temp_dir cfg) rnd (lower (path_suffix filename))"
    and "files s0 step = None"
    and "upload_read env = Inr content"
    and "upload_write env = None"
    and "validate_file env ((files s0)(step \<mapsto> content)) step filename = Inl (FileValidationError m)"
  shows "fst (run_endpoint ep cfg env filename s0) =
           \<lparr>status = 400, payload = JSONContent (JObj [(''detail'', JStr m)])\<rparr> \<and>
         files (snd (run_endpoint ep cfg env filename s0)) = files s0 \<and>
         request_events s0 (snd (run_endpoint ep cfg env filename s0)) =
           [TempCreated step, UploadWritten step, Validate step (Some content) False, Unlink step] \<and>
         kernel_calls (request_events s0 (snd (run_endpoint ep cfg env filename s0))) = 0 \<and>
         allocated_paths (request_events s0 (snd (run_endpoint ep cfg env filename s0))) = [step]"
  using assms
  by (cases ep) (simp_all add: endpoint_defs call_defs state_defs trace_defs fun_upd_idem)

theorem validation_rejection_witness:
  "fst (run_endpoint StepToStlBase64 example_config
          (example_env (Inl (FileValidationError ''Invalid file signature'')) (kernel_writes [1, 2])) ''part.step'' empty_state) =
     \<lparr>status = 400, payload = JSONContent (JObj [(''detail'', JStr ''Invalid file signature'')])\<rparr> \<and>
   request_events empty_state (snd (run_endpoint StepToStlBase64 example_config
          (example_env (Inl (FileValidationError ''Invalid file signature'')) (kernel_writes [1, 2])) ''part.step'' empty_state)) =
     [TempCreated ''/tmp/cad/tmpk3x9_q2a.step'', UploadWritten ''/tmp/cad/tmpk3x9_q2a.step'',
      Validate ''/tmp/cad/tmpk3x9_q2a.step'' (Some [73, 83, 79]) False, Unlink ''/tmp/cad/tmpk3x9_q2a.step'']"
  using validation_rejection[of "example_env (Inl (FileValidationError ''Invalid file signature'')) (kernel_writes [1, 2])"
      "''k3x9_q2a''" "''/tmp/cad/tmpk3x9_q2a.step''" example_config "''part.step''" empty_state "[73, 83, 79]"
      "''Invalid file signature''" StepToStlBase64]
  by (simp add: example_env_def empty_state_def example_step_path)

section \<open>Release of the temp paths and order of the calls\<close>

lemma binary_released:
  fixes cfg env filename s0
  defines "s1 \<equiv> snd (run_endpoint StepToStl cfg env filename s0)"
  shows "trace s1 = trace s0 @ request_events s0 s1 \<and>
         (\<forall>p\<in>set (allocated_paths (request_events s0 s1)).
             files s1 p = None \<and> unlinks p (request_events s0 s1) \<le> 1) \<and>
         (\<forall>p\<in>set (files_made (request_events s0 s1)). unlinks p (request_events s0 s1) = 1)"
proof -
  note unf = s1_def run_endpoint_def convert_step_to_stl_def send_response_def trace_defs state_defs
  show ?thesis
  proof (cases rule: convert_step_to_stl_try_cases[of cfg env filename "s0\<lparr>background := []\<rparr>"])
    case (no_temp e)
    show ?thesis by (simp add: no_temp unf)
  next
    case (no_upload e step)
    then show ?thesis by (simp add: unf)
  next
    case (rejected m step content)
    then show ?thesis by (simp add: unf)
  next
    case (validator_crashed e step content)
    then show ?thesis by (simp add: unf)
  next
    case (conversion_failed m step content w)
    then show ?thesis
      by (cases w; cases "with_suffix step ''.stl'' = step"; cases "files s0 (with_suffix step ''.stl'')")
         (simp_all add: unf)
  next
    case (kernel_crashed e step content w)
    then show ?thesis
      by (cases w; cases "with_suffix step ''.stl'' = step"; cases "files s0 (with_suffix step ''.stl'')")
         (simp_all add: unf)
  next
    case (no_output e step content w)
    then show ?thesis
      by (cases w; cases "with_suffix step ''.stl'' = step"; cases "files s0 (with_suffix step ''.stl'')")
         (simp_all add: unf)
  next
    case (success step content w out data)
    then show ?thesis
      by (cases w; cases "with_suffix step ''.stl'' = step"; cases "files s0 (with_suffix step ''.stl'')")
         (simp_all add: unf)
  qed
qed

lemma base64_released:
  fixes cfg env filename s0
  defines "s1 \<equiv> snd (run_endpoint StepToStlBase64 cfg env filename s0)"
  shows "trace s1 = trace s0 @ request_events s0 s1 \<and>
         (\<forall>p\<in>set (allocated_paths (request_events s0 s1)).
             files s1 p = None \<and> unlinks p (request_events s0 s1) \<le> 1) \<and>
         (\<forall>p\<in>set (files_made (request_events s0 s1)). unlinks p (request_events s0 s1) = 1)"
proof -
  note unf = s1_def run_endpoint_def convert_step_to_stl_base64_def send_response_def trace_defs state_defs
  show ?thesis
  proof (cases rule: convert_step_to_stl_base64_try_cases[of cfg env filename "s0\<lparr>background := []\<rparr>"])
    case (no_temp e)
    show ?thesis by (simp add: no_temp unf)
  next
    case (no_upload e step)
    then show ?thesis by (simp add: unf)
  next
    case (rejected m step content)
    then show ?thesis by (simp add: unf)
  next
    case (validator_crashed e step content)
    then show ?thesis by (simp add: unf)
  next
    case (conversion_failed m step content w)
    then show ?thesis
      by (cases w; cases "with_suffix step ''.stl'' = step"; cases "files s0 (with_suffix step ''.stl'')")
         (simp_all add: unf)
  next
    case (kernel_crashed e step content w)
    then show ?thesis
      by (cases w; cases "with_suffix step ''.stl'' = step"; cases "files s0 (with_suffix step ''.stl'')")
         (simp_all add: unf)
  next
    case (no_output e step content w out)
    then show ?thesis
      by (cases w; cases "with_suffix step ''.stl'' = step"; cases "files s0 (with_suffix step ''.stl'')")
         (simp_all add: unf)
  next
    case (success step content w out data)
    then show ?thesis
      by (cases w; cases "with_suffix step ''.stl'' = step"; cases "files s0 (with_suffix step ''.stl'')")
         (simp_all add: unf)
  qed
qed

lemma binary_ordered:
  fixes cfg env filename s0
  defines "s1 \<equiv> snd (run_endpoint StepToStl cfg env filename s0)"
  shows "kernel_calls (request_events s0 s1) \<le> 1 \<and>
         validated_first [] (request_events s0 s1) \<and>
         persisted_first [] (request_events s0 s1)"
proof -
  note unf = s1_def run_endpoint_def convert_step_to_stl_def send_response_def trace_defs state_defs
  show ?thesis
  proof (cases rule: convert_step_to_stl_try_cases[of cfg env filename "s0\<lparr>background := []\<rparr>"])
    case (no_temp e)
    show ?thesis by (simp add: no_temp unf)
  next
    case (no_upload e step)
    then show ?thesis by (simp add: unf)
  next
    case (rejected m step content)
    then show ?thesis by (simp add: unf)
  next
    case (validator_crashed e step content)
    then show ?thesis by (simp add: unf)
  next
    case (conversion_failed m step content w)
    then show ?thesis
      by (cases w; cases "with_suffix step ''.stl'' = step"; cases "files s0 (with_suffix step ''.stl'')")
         (simp_all add: unf)
  next
    case (kernel_crashed e step content w)
    then show ?thesis
      by (cases w; cases "with_suffix step ''.stl'' = step"; cases "files s0 (with_suffix step ''.stl'')")
         (simp_all add: unf)
  next
    case (no_output e step content w)
    then show ?thesis
      by (cases w; cases "with_suffix step ''.stl'' = step"; cases "files s0 (with_suffix step ''.stl'')")
         (simp_all add: unf)
  next
    case (success step content w out data)
    then show ?thesis
      by (cases w; cases "with_suffix step ''.stl'' = step"; cases "files s0 (with_suffix step ''.stl'')")
         (simp_all add: unf)
  qed
qed

lemma base64_ordered:
  fixes cfg env filename s0
  defines "s1 \<equiv> snd (run_endpoint StepToStlBase64 cfg env filename s0)"
  shows "kernel_calls (request_events s0 s1) \<le> 1 \<and>
         validated_first [] (request_events s0 s1) \<and>
         persisted_first [] (request_events s0 s1)"
proof -
  note unf = s1_def run_endpoint_def convert_step_to_stl_base64_def send_response_def trace_defs state_defs
  show ?thesis
  proof (cases rule: convert_step_to_stl_base64_try_cases[of cfg env filename "s0\<lparr>background := []\<rparr>"])
    case (no_temp e)
    show ?thesis by (simp add: no_temp unf)
  next
    case (no_upload e step)
    then show ?thesis by (simp add: unf)
  next
    case (rejected m step content)
    then show ?thesis by (simp add: unf)
  next
    case (validator_crashed e step content)
    then show ?thesis by (simp add: unf)
  next
    case (conversion_failed m step content w)
    then show ?thesis
      by (cases w; cases "with_suffix step ''.stl'' = step"; cases "files s0 (with_suffix step ''.stl'')")
         (simp_all add: unf)
  next
    case (kernel_crashed e step content w)
    then show ?thesis
      by (cases w; cases "with_suffix step ''.stl'' = step"; cases "files s0 (with_suffix step ''.stl'')")
         (simp_all add: unf)
  next
    case (no_output e step content w out)
    then show ?thesis
      by (cases w; cases "with_suffix step ''.stl'' = step"; cases "files s0 (with_suffix step ''.stl'')")
         (simp_all add: unf)
  next
    case (success step content w out data)
    then show ?thesis
      by (cases w; cases "with_suffix step ''.stl'' = step"; cases "files s0 (with_suffix step ''.stl'')")
         (simp_all add: unf)
  qed
qed

lemma example_stl_path:
  "with_suffix ''/tmp/cad/tmpk3x9_q2a.step'' ''.stl'' = ''/tmp/cad/tmpk3x9_q2a.stl''"
  by code_simp

lemma example_success_events:
  "request_events empty_state
     (snd (run_endpoint StepToStl example_config (example_env accepted (kernel_writes [1, 2, 3]))
             ''part.step'' empty_state)) =
   [TempCreated ''/tmp/cad/tmpk3x9_q2a.step'', UploadWritten ''/tmp/cad/tmpk3x9_q2a.step'',
    Validate ''/tmp/cad/tmpk3x9_q2a.step'' (Some [73, 83, 79]) True,
    Convert ''/tmp/cad/tmpk3x9_q2a.step'' ''/tmp/cad/tmpk3x9_q2a.stl'' (Some [73, 83, 79]),
    OutputWritten ''/tmp/cad/tmpk3x9_q2a.stl'',
    Unlink ''/tmp/cad/tmpk3x9_q2a.step'', Unlink ''/tmp/cad/tmpk3x9_q2a.stl'']"
  by code_simp

text \<open>
  C1. On either endpoint and whatever the collaborators do (the upload cannot be read or
  written, the validator rejects or crashes, the kernel fails or crashes, the output
  cannot be read, or the request succeeds), when the request is over, the background task
  of the binary endpoint included, every temp path the request allocated (the input path
  and the output path) is absent from the disk; no path is unlinked twice, and every file
  the request brought into being (the temporary file, and the output when the kernel left
  one) is unlinked exactly once.
\<close>

theorem temp_paths_released:
  "trace (snd (run_endpoint ep cfg env filename s0)) =
     trace s0 @ request_events s0 (snd (run_endpoint ep cfg env filename s0)) \<and>
   (\<forall>p\<in>set (allocated_paths (request_events s0 (snd (run_endpoint ep cfg env filename s0)))).
       files (snd (run_endpoint ep cfg env filename s0)) p = None \<and>
       unlinks p (request_events s0 (snd (run_endpoint ep cfg env filename s0))) \<le> 1) \<and>
   (\<forall>p\<in>set (files_made (request_events s0 (snd (run_endpoint ep cfg env filename s0)))).
       unlinks p (request_events s0 (snd (run_endpoint ep cfg env filename s0))) = 1)"
proof (cases ep)
  case StepToStl
  show ?thesis unfolding StepToStl by (rule binary_released)
next
  case StepToStlBase64
  show ?thesis unfolding StepToStlBase64 by (rule base64_released)
qed

theorem temp_paths_released_witness:
  "allocated_paths (request_events empty_state
     (snd (run_endpoint StepToStl example_config (example_env accepted (kernel_writes [1, 2, 3]))
             ''part.step'' empty_state))) = [''/tmp/cad/tmpk3x9_q2a.step'', ''/tmp/cad/tmpk3x9_q2a.stl''] \<and>
   files (snd (run_endpoint StepToStl example_config (example_env accepted (kernel_writes [1, 2, 3]))
             ''part.step'' empty_state)) ''/tmp/cad/tmpk3x9_q2a.step'' = None \<and>
   files (snd (run_endpoint StepToStl example_config (example_env accepted (kernel_writes [1, 2, 3]))
             ''part.step'' empty_state)) ''/tmp/cad/tmpk3x9_q2a.stl'' = None \<and>
   unlinks ''/tmp/cad/tmpk3x9_q2a.step'' (request_events empty_state
     (snd (run_endpoint StepToStl example_config (example_env accepted (kernel_writes [1, 2, 3]))
             ''part.step'' empty_state))) = 1 \<and>
   unlinks ''/tmp/cad/tmpk3x9_q2a.stl'' (request_events empty_state
     (snd (run_endpoint StepToStl example_config (example_env accepted (kernel_writes [1, 2, 3]))
             ''part.step'' empty_state))) = 1"
  using temp_paths_released[of StepToStl example_config "example_env accepted (kernel_writes [1, 2, 3])"
          "''part.step''" empty_state]
  by (simp add: example_success_events allocated_paths_def files_made_def)

text \<open>
  C2. On either endpoint the kernel is called at most once per request, and only on a
  path and on bytes that the validator has accepted before in that request (with no write
  to the path in between); validator and kernel are only called on the path the upload
  was persisted to.
\<close>

theorem kernel_after_validation:
  "kernel_calls (request_events s0 (snd (run_endpoint ep cfg env filename s0))) \<le> 1 \<and>
   validated_first [] (request_events s0 (snd (run_endpoint ep cfg env filename s0))) \<and>
   persisted_first [] (request_events s0 (snd (run_endpoint ep cfg env filename s0)))"
proof (cases ep)
  case StepToStl
  show ?thesis unfolding StepToStl by (rule binary_ordered)
next
  case StepToStlBase64
  show ?thesis unfolding StepToStlBase64 by (rule base64_ordered)
qed

theorem kernel_after_validation_witness:
  "kernel_calls (request_events empty_state
     (snd (run_endpoint StepToStl example_config (example_env accepted (kernel_writes [1, 2, 3]))
             ''part.step'' empty_state))) = 1 \<and>
   validated_first [] (request_events empty_state
     (snd (run_endpoint StepToStl example_config (example_env accepted (kernel_writes [1, 2, 3]))
             ''part.step'' empty_state))) \<and>
   persisted_first [] (request_events empty_state
     (snd (run_endpoint StepToStl example_config (example_env accepted (kernel_writes [1, 2, 3]))
             ''part.step'' empty_state)))"
  using kernel_after_validation[of empty_state StepToStl example_config
          "example_env accepted (kernel_writes [1, 2, 3])" "''part.step''"]
  by (simp add: example_success_events kernel_calls_def)

section \<open>Conversion failure\<close>

text \<open>
  C6. When \<^verbatim>\<open>conversion_service.convert\<close> raises \<^verbatim>\<open>ConversionError\<close> on a
  validated upload, either endpoint answers 422 (not the 400 of a validation error) with
  the kernel's message; the input path and the output path are both absent afterwards,
  the input file is unlinked once and so is the output when the kernel left a partial one.
\<close>

theorem conversion_failure:
  assumes "tmp_random env = Inr rnd"
    and "step = temp_path (temp_dir cfg) rnd (lower (path_suffix filename))"
    and "files s0 step = None"
    and "upload_read env = Inr content"
    and "upload_write env = None"
    and "validate_file env ((files s0)(step \<mapsto> content)) step filename = Inr validated"
    and "stl = with_suffix step ''.stl''"
    and "convert env ((files s0)(step \<mapsto> content)) step stl = (written, Inl (ConversionError m))"
  shows "fst (run_endpoint ep cfg env filename s0) =
           \<lparr>status = 422,
            payload = JSONContent (JObj [(''detail'', JStr (''Conversion failed: '' @ m))])\<rparr> \<and>
         status (fst (run_endpoint ep cfg env filename s0)) \<noteq> 400 \<and>
         files (snd (run_endpoint ep cfg env filename s0)) step = None \<and>
         files (snd (run_endpoint ep cfg env filename s0)) stl = None \<and>
         unlinks step (request_events s0 (snd (run_endpoint ep cfg env filename s0))) = 1 \<and>
         (written \<noteq> None \<longrightarrow>
            unlinks stl (request_events s0 (snd (run_endpoint ep cfg env filename s0))) = 1) \<and>
         kernel_calls (request_events s0 (snd (run_endpoint ep cfg env filename s0))) = 1"
  using assms
  by (cases ep; cases written; cases "with_suffix step ''.stl'' = step";
      cases "files s0 (with_suffix step ''.stl'')")
     (simp_all add: endpoint_defs call_defs state_defs trace_defs)

theorem conversion_failure_witness:
  "fst (run_endpoint StepToStl example_config
          (example_env accepted (kernel_fails_partway [1] (ConversionError ''No shapes in STEP file'')))
          ''part.step'' empty_state) =
     \<lparr>status = 422,
      payload = JSONContent (JObj [(''detail'', JStr ''Conversion failed: No shapes in STEP file'')])\<rparr> \<and>
   files (snd (run_endpoint StepToStl example_config
          (example_env accepted (kernel_fails_partway [1] (ConversionError ''No shapes in STEP file'')))
          ''part.step'' empty_state)) ''/tmp/cad/tmpk3x9_q2a.step'' = None \<and>
   files (snd (run_endpoint StepToStl example_config
          (example_env accepted (kernel_fails_partway [1] (ConversionError ''No shapes in STEP file'')))
          ''part.step'' empty_state)) ''/tmp/cad/tmpk3x9_q2a.stl'' = None \<and>
   unlinks ''/tmp/cad/tmpk3x9_q2a.step'' (request_events empty_state (snd (run_endpoint StepToStl example_config
          (example_env accepted (kernel_fails_partway [1] (ConversionError ''No shapes in STEP file'')))
          ''part.step'' empty_state))) = 1 \<and>
   unlinks ''/tmp/cad/tmpk3x9_q2a.stl'' (request_events empty_state (snd (run_endpoint StepToStl example_config
          (example_env accepted (kernel_fails_partway [1] (ConversionError ''No shapes in STEP file'')))
          ''part.step'' empty_state))) = 1"
  using conversion_failure[of "example_env accepted (kernel_fails_partway [1] (ConversionError ''No shapes in STEP file''))"
      "''k3x9_q2a''" "''/tmp/cad/tmpk3x9_q2a.step''" example_config "''part.step''" empty_state
      "[73, 83, 79]" "(''.step'', 3)" "''/tmp/cad/tmpk3x9_q2a.stl''" "Some [1]"
      "''No shapes in STEP file''" StepToStl]
  by (simp add: example_env_def empty_state_def example_step_path example_stl_path accepted_def
      kernel_fails_partway_def)

section \<open>Unexpected exceptions\<close>












section \<open>The base64 endpoint's answer\<close>



lemma b64_alphabet: "map b64_char [0..<64] = ''ABCDEFGHIJKLMNOPQRSTUVWXYZabcdefghijklmnopqrstuvwxyz0123456789+/''"
  by code_simp





lemma send_status_not_ok:
  "status (fst (send_response (Inl r, s))) = 200 \<Longrightarrow> (\<exists>d. r = HTTPException 200 d)"
  by (cases r) (auto simp: send_response_def cad_engine_exception_handler_def split: if_splits)





end
